theory Spec2Isabelle
  imports Main "HOL-Library.Sublist"
begin

section \<open>Text and the Unicode tables of the library\<close>

text \<open>
  The functions of \<^verbatim>\<open>source/helper.c\<close> read their arguments as NUL-terminated UTF-8 and
  walk them one code point at a time (\<^verbatim>\<open>g_utf8_get_char\<close>, \<^verbatim>\<open>g_utf8_next_char\<close>). A text is
  modelled as the list of its code points (\<^verbatim>\<open>gunichar\<close>, an unsigned 32-bit value).
  Reading at the terminating NUL gives code point 0; the model gives 0 for every read at
  or past the end.
\<close>

type_synonym gunichar = nat

definition g_utf8_strlen :: "gunichar list \<Rightarrow> nat" where
  "g_utf8_strlen s = length s"

definition g_utf8_get_char :: "gunichar list \<Rightarrow> nat \<Rightarrow> gunichar" where
  "g_utf8_get_char s i = (if i < length s then s ! i else 0)"

text \<open>The code points that a loop \<^verbatim>\<open>for (i = 0, it = s; i < n; i++, it = g_utf8_next_char (it))\<close>
  reads, in order.\<close>

definition utf8_chars :: "gunichar list \<Rightarrow> nat \<Rightarrow> gunichar list" where
  "utf8_chars s n = map (g_utf8_get_char s) [0..<n]"

text \<open>An ASCII literal as a text.\<close>

definition utf8 :: "string \<Rightarrow> gunichar list" where
  "utf8 s = map of_char s"

text \<open>
  The character predicates are GLib's. On ASCII they are fixed and written out; above
  ASCII they read the Unicode character database, which is a parameter of the model
  (a record of tables), so that every theorem holds for any database.
\<close>

record unicode_tables =
  uc_islower :: "gunichar \<Rightarrow> bool"
  uc_isupper :: "gunichar \<Rightarrow> bool"
  uc_isdigit :: "gunichar \<Rightarrow> bool"
  uc_isspace :: "gunichar \<Rightarrow> bool"
  uc_tolower :: "gunichar \<Rightarrow> gunichar"

definition g_unichar_islower :: "unicode_tables \<Rightarrow> gunichar \<Rightarrow> bool" where
  "g_unichar_islower U c = (if c < 128 then 97 \<le> c \<and> c \<le> 122 else uc_islower U c)"

definition g_unichar_isupper :: "unicode_tables \<Rightarrow> gunichar \<Rightarrow> bool" where
  "g_unichar_isupper U c = (if c < 128 then 65 \<le> c \<and> c \<le> 90 else uc_isupper U c)"

definition g_unichar_isdigit :: "unicode_tables \<Rightarrow> gunichar \<Rightarrow> bool" where
  "g_unichar_isdigit U c = (if c < 128 then 48 \<le> c \<and> c \<le> 57 else uc_isdigit U c)"

definition g_unichar_isspace :: "unicode_tables \<Rightarrow> gunichar \<Rightarrow> bool" where
  "g_unichar_isspace U c =
     (if c < 128 then c = 9 \<or> c = 10 \<or> c = 12 \<or> c = 13 \<or> c = 32 else uc_isspace U c)"

definition g_unichar_tolower :: "unicode_tables \<Rightarrow> gunichar \<Rightarrow> gunichar" where
  "g_unichar_tolower U c =
     (if c < 128 then (if 65 \<le> c \<and> c \<le> 90 then c + 32 else c) else uc_tolower U c)"

text \<open>A database with nothing above ASCII, for evaluating at concrete inputs.\<close>

definition ascii_tables :: unicode_tables where
  "ascii_tables = \<lparr> uc_islower = (\<lambda>c. False), uc_isupper = (\<lambda>c. False),
     uc_isdigit = (\<lambda>c. False), uc_isspace = (\<lambda>c. False), uc_tolower = (\<lambda>c. c) \<rparr>"

section \<open>Configuration\<close>

text \<open>
  Modelled from the spec: the global \<^verbatim>\<open>config\<close> and the enumeration of the matching methods
  are declared in a header that is not among the sources. The spec gives the four methods
  (literal, glob, regex, fuzzy; the literal one is the \<^verbatim>\<open>default\<close> branch of \<^verbatim>\<open>create_regex\<close>)
  and the three settings that these functions read: \<^verbatim>\<open>config.matching_method\<close>,
  \<^verbatim>\<open>config.tokenize\<close> (here \<open>tokenize_enabled\<close>) and \<^verbatim>\<open>config.case_sensitive\<close>.
\<close>

datatype MatchingMethod = MM_NORMAL | MM_REGEX | MM_GLOB | MM_FUZZY

record Settings =
  matching_method :: MatchingMethod
  tokenize_enabled :: bool
  case_sensitive :: bool

section \<open>The fuzzy scorer\<close>

definition INT_MIN :: int where "INT_MIN = - 2147483648"

definition FUZZY_SCORER_MAX_LENGTH :: nat where "FUZZY_SCORER_MAX_LENGTH = 256"
definition MIN_SCORE :: int where "MIN_SCORE = INT_MIN div 2"
definition LEADING_GAP_SCORE :: int where "LEADING_GAP_SCORE = - 4"
definition GAP_SCORE :: int where "GAP_SCORE = - 5"
definition WORD_START_SCORE :: int where "WORD_START_SCORE = 50"
definition NON_WORD_SCORE :: int where "NON_WORD_SCORE = 40"
definition CAMEL_SCORE :: int where "CAMEL_SCORE = WORD_START_SCORE + GAP_SCORE - 1"
definition CONSECUTIVE_SCORE :: int where "CONSECUTIVE_SCORE = WORD_START_SCORE + GAP_SCORE"
definition PATTERN_NON_START_MULTIPLIER :: int where "PATTERN_NON_START_MULTIPLIER = 1"
definition PATTERN_START_MULTIPLIER :: int where "PATTERN_START_MULTIPLIER = 2"

datatype CharClass = LOWER | UPPER | DIGIT | NON_WORD

definition rofi_scorer_get_character_class :: "unicode_tables \<Rightarrow> gunichar \<Rightarrow> CharClass" where
  "rofi_scorer_get_character_class U c =
     (if g_unichar_islower U c then LOWER
      else if g_unichar_isupper U c then UPPER
      else if g_unichar_isdigit U c then DIGIT
      else NON_WORD)"

definition rofi_scorer_get_score_for :: "CharClass \<Rightarrow> CharClass \<Rightarrow> int" where
  "rofi_scorer_get_score_for prev cur =
     (if prev = NON_WORD \<and> cur \<noteq> NON_WORD then WORD_START_SCORE
      else if (prev = LOWER \<and> cur = UPPER) \<or> (prev \<noteq> DIGIT \<and> cur = DIGIT) then CAMEL_SCORE
      else if cur = NON_WORD then NON_WORD_SCORE
      else 0)"

text \<open>
  The first loop of \<^verbatim>\<open>rofi_scorer_fuzzy_evaluate\<close>: it fills \<^verbatim>\<open>score[si]\<close> from the class of
  the previous and of the current code point, and sets every \<^verbatim>\<open>dp[si]\<close> to \<^verbatim>\<open>MIN_SCORE\<close>.
  The two arrays are the two lists of the result; \<open>prev\<close> is the loop's variable, which the
  caller starts at \<open>NON_WORD\<close>.
\<close>

fun scorer_init :: "unicode_tables \<Rightarrow> CharClass \<Rightarrow> gunichar list \<Rightarrow> int list \<times> int list" where
  "scorer_init U prev [] = ([], [])"
| "scorer_init U prev (c # cs) =
     (let cur = rofi_scorer_get_character_class U c;
          (score, dp) = scorer_init U cur cs
      in (rofi_scorer_get_score_for prev cur # score, MIN_SCORE # dp))"

text \<open>The comparison of a pattern code point with a code point of the candidate.\<close>

definition scorer_chars_equal :: "Settings \<Rightarrow> unicode_tables \<Rightarrow> gunichar \<Rightarrow> gunichar \<Rightarrow> bool" where
  "scorer_chars_equal cfg U pc sc =
     (if case_sensitive cfg then pc = sc
      else g_unichar_tolower U pc = g_unichar_tolower U sc)"

text \<open>
  The inner loop over the candidate for one pattern code point \<open>pc\<close>. Its arguments are
  the index \<open>si\<close>, the variables \<open>lefts\<close>, \<open>uleft\<close> and \<open>ulefts\<close>, and what is left of
  the candidate, of \<^verbatim>\<open>score\<close> and of \<^verbatim>\<open>dp\<close> from \<open>si\<close> on. It returns the rewritten part of
  \<^verbatim>\<open>dp\<close> with the final \<open>uleft\<close> and \<open>ulefts\<close>, which the next row starts from.
\<close>

fun scorer_row ::
  "Settings \<Rightarrow> unicode_tables \<Rightarrow> gunichar \<Rightarrow> bool \<Rightarrow> bool \<Rightarrow> nat \<Rightarrow> int \<Rightarrow> int \<Rightarrow> int \<Rightarrow>
   gunichar list \<Rightarrow> int list \<Rightarrow> int list \<Rightarrow> int list \<times> int \<times> int" where
  "scorer_row cfg U pc pfirst pstart si lefts uleft ulefts (sc # scs) (s # score) (d # dp) =
     (let left = d;
          lefts' = max (lefts + GAP_SCORE) left;
          d' = (if scorer_chars_equal cfg U pc sc
                then (let t = s * (if pstart then PATTERN_START_MULTIPLIER
                                   else PATTERN_NON_START_MULTIPLIER)
                      in if pfirst then LEADING_GAP_SCORE * int si + t
                         else max (uleft + CONSECUTIVE_SCORE) (ulefts + t))
                else MIN_SCORE);
          (dp', r) = scorer_row cfg U pc pfirst pstart (si + 1) lefts' left lefts' scs score dp
      in (d' # dp', r))"
| "scorer_row cfg U pc pfirst pstart si lefts uleft ulefts scs score dp = ([], uleft, ulefts)"

text \<open>The loop over the pattern: a space code point only sets \<open>pstart\<close>.\<close>

fun scorer_rows ::
  "Settings \<Rightarrow> unicode_tables \<Rightarrow> gunichar list \<Rightarrow> bool \<Rightarrow> bool \<Rightarrow> int \<Rightarrow> int \<Rightarrow>
   gunichar list \<Rightarrow> int list \<Rightarrow> int list \<Rightarrow> int list" where
  "scorer_rows cfg U [] pfirst pstart uleft ulefts scs score dp = dp"
| "scorer_rows cfg U (pc # pcs) pfirst pstart uleft ulefts scs score dp =
     (if g_unichar_isspace U pc
      then scorer_rows cfg U pcs pfirst True uleft ulefts scs score dp
      else (let (dp', uleft', ulefts') =
                  scorer_row cfg U pc pfirst pstart 0 MIN_SCORE uleft ulefts scs score dp
            in scorer_rows cfg U pcs False False uleft' ulefts' scs score dp'))"

text \<open>The last loop: the best value of the final row, with the gap penalty.\<close>

fun scorer_final :: "int \<Rightarrow> int list \<Rightarrow> int" where
  "scorer_final lefts [] = lefts"
| "scorer_final lefts (d # dp) = scorer_final (max (lefts + GAP_SCORE) d) dp"

text \<open>
  \<^verbatim>\<open>int rofi_scorer_fuzzy_evaluate (const char *pattern, glong plen, const char *str, glong slen)\<close>.
  The C type \<^verbatim>\<open>int\<close> is modelled by \<open>int\<close>: the values are sums of at most \<open>plen\<close> bonuses of
  at most 100 above \<^verbatim>\<open>MIN_SCORE\<close>, far from the ends of the 32-bit range for the inputs
  considered here, and signed overflow has no defined result in C that a model could follow.
\<close>

definition rofi_scorer_fuzzy_evaluate ::
  "Settings \<Rightarrow> unicode_tables \<Rightarrow> gunichar list \<Rightarrow> nat \<Rightarrow> gunichar list \<Rightarrow> nat \<Rightarrow> int" where
  "rofi_scorer_fuzzy_evaluate cfg U pattern plen str slen =
     (if slen > FUZZY_SCORER_MAX_LENGTH then - MIN_SCORE
      else (let scs = utf8_chars str slen;
                (score, dp) = scorer_init U NON_WORD scs;
                dp' = scorer_rows cfg U (utf8_chars pattern plen) True True 0 0 scs score dp
            in - scorer_final MIN_SCORE dp'))"

section \<open>The edit distance\<close>

text \<open>
  \<^verbatim>\<open>unsigned int levenshtein (const char *needle, const glong needlelen,
  const char *haystack, const glong haystacklen)\<close>. The lengths are counts of code points. A
  value of type \<^verbatim>\<open>unsigned int\<close> is a natural number below \<open>2 ^ 32\<close>, and every store into
  one reduces modulo \<open>2 ^ 32\<close> (\<open>u32\<close>). The variable \<^verbatim>\<open>lastdiag\<close> is a \<^verbatim>\<open>glong\<close>, so the third
  argument of \<^verbatim>\<open>MIN3\<close> is computed and compared in 64 bits, where it cannot wrap.
\<close>

definition G_MAXLONG :: nat where "G_MAXLONG = 9223372036854775807"
definition UINT_MAX :: nat where "UINT_MAX = 4294967295"

definition u32 :: "nat \<Rightarrow> nat" where
  "u32 n = n mod 4294967296"

definition MIN3 :: "nat \<Rightarrow> nat \<Rightarrow> nat \<Rightarrow> nat" where
  "MIN3 a b c = (if a < b then (if a < c then a else c) else (if b < c then b else c))"

text \<open>The code point as both loops compare it: lowered unless matching is case sensitive.\<close>

definition levenshtein_char :: "Settings \<Rightarrow> unicode_tables \<Rightarrow> gunichar \<Rightarrow> gunichar" where
  "levenshtein_char cfg U c = (if \<not> case_sensitive cfg then g_unichar_tolower U c else c)"

text \<open>
  The inner loop, for one code point \<open>haystackc\<close> of the haystack. It walks the needle
  and the old column from index \<open>y\<close> on; \<open>lastdiag\<close> is the loop's variable, \<open>left\<close> is the
  new \<^verbatim>\<open>column[y - 1]\<close>. The result is the new column from \<open>y\<close> on.
\<close>

fun levenshtein_column ::
  "Settings \<Rightarrow> unicode_tables \<Rightarrow> gunichar \<Rightarrow> gunichar list \<Rightarrow> nat \<Rightarrow> nat \<Rightarrow> nat list \<Rightarrow> nat list" where
  "levenshtein_column cfg U haystackc (nc # needles) lastdiag left (c # column) =
     (let needlec = levenshtein_char cfg U nc;
          olddiag = c;
          v = u32 (MIN3 (u32 (c + 1)) (u32 (left + 1))
                     (lastdiag + (if needlec = haystackc then 0 else 1)))
      in v # levenshtein_column cfg U haystackc needles olddiag v column)"
| "levenshtein_column cfg U haystackc needles lastdiag left column = []"

text \<open>The outer loop over the haystack, \<open>x\<close> counting from 1.\<close>

fun levenshtein_rows ::
  "Settings \<Rightarrow> unicode_tables \<Rightarrow> gunichar list \<Rightarrow> nat \<Rightarrow> gunichar list \<Rightarrow> nat list \<Rightarrow> nat list" where
  "levenshtein_rows cfg U needles x [] column = column"
| "levenshtein_rows cfg U needles x (hc # haystack) column =
     levenshtein_rows cfg U needles (x + 1) haystack
       (u32 x # levenshtein_column cfg U (levenshtein_char cfg U hc) needles (x - 1) (u32 x)
                  (tl column))"

definition levenshtein ::
  "Settings \<Rightarrow> unicode_tables \<Rightarrow> gunichar list \<Rightarrow> nat \<Rightarrow> gunichar list \<Rightarrow> nat \<Rightarrow> nat" where
  "levenshtein cfg U needle needlelen haystack haystacklen =
     (if needlelen = G_MAXLONG then UINT_MAX
      else levenshtein_rows cfg U (utf8_chars needle needlelen) 1
             (utf8_chars haystack haystacklen) (map u32 [0..<needlelen + 1]) ! needlelen)"

text \<open>
  The Levenshtein distance as the textbook defines it, for comparison with the code: the
  distance \<open>lev_dist a b i j\<close> between the first \<open>i\<close> items of \<open>a\<close> and the first \<open>j\<close>
  items of \<open>b\<close> is the least number of insertions, deletions and substitutions, given by
  the Wagner-Fischer recurrence.
\<close>

fun lev_dist :: "'a list \<Rightarrow> 'a list \<Rightarrow> nat \<Rightarrow> nat \<Rightarrow> nat" where
  "lev_dist a b 0 j = j"
| "lev_dist a b (Suc i) 0 = Suc i"
| "lev_dist a b (Suc i) (Suc j) =
     min (min (lev_dist a b i (Suc j) + 1) (lev_dist a b (Suc i) j + 1))
       (lev_dist a b i j + (if a ! i = b ! j then 0 else 1))"

section \<open>The regular expression library\<close>








subsection \<open>Reading a pattern\<close>









subsection \<open>Running a pattern\<close>











section \<open>Compiling a token\<close>







section \<open>Tokens\<close>





section \<open>Highlighting\<close>






























section \<open>What the compiled patterns are, and what they accept\<close>

text \<open>
  The definitions of this section are not part of the program. They state, for comparison
  with the code, which pieces the pattern of a token consists of in each matching method,
  and which candidates the fuzzy pattern accepts.
\<close>









section \<open>Proofs\<close>


section \<open>Properties of the fuzzy scorer\<close>

lemmas score_consts =
  INT_MIN_def MIN_SCORE_def LEADING_GAP_SCORE_def GAP_SCORE_def WORD_START_SCORE_def
  NON_WORD_SCORE_def CAMEL_SCORE_def CONSECUTIVE_SCORE_def
  PATTERN_NON_START_MULTIPLIER_def PATTERN_START_MULTIPLIER_def

lemma utf8_chars_length [simp]: "length (utf8_chars s n) = n"
  by (simp add: utf8_chars_def)

lemma utf8_chars_full: "utf8_chars s (length s) = s"
  by (rule nth_equalityI) (simp_all add: utf8_chars_def g_utf8_get_char_def)

lemma utf8_chars_nth: "i < n \<Longrightarrow> utf8_chars s n ! i = g_utf8_get_char s i"
  by (simp add: utf8_chars_def)

lemma scorer_init_Cons_snd:
  "snd (scorer_init U prev (c # cs)) =
     MIN_SCORE # snd (scorer_init U (rofi_scorer_get_character_class U c) cs)"
  by (simp add: Let_def split: prod.splits)

lemma scorer_init_Cons_fst:
  "fst (scorer_init U prev (c # cs)) =
     rofi_scorer_get_score_for prev (rofi_scorer_get_character_class U c) #
     fst (scorer_init U (rofi_scorer_get_character_class U c) cs)"
  by (simp add: Let_def split: prod.splits)

lemma scorer_init_dp: "snd (scorer_init U prev cs) = replicate (length cs) MIN_SCORE"
  by (induction cs arbitrary: prev) (simp_all only: scorer_init_Cons_snd, simp_all)


lemma scorer_init_score_nth:
  "j < length cs \<Longrightarrow>
   fst (scorer_init U prev cs) ! j =
     rofi_scorer_get_score_for
       (if j = 0 then prev else rofi_scorer_get_character_class U (cs ! (j - 1)))
       (rofi_scorer_get_character_class U (cs ! j))"
proof (induction cs arbitrary: prev j)
  case Nil
  then show ?case by simp
next
  case (Cons c cs)
  show ?case
  proof (cases j)
    case 0
    then show ?thesis by (simp only: scorer_init_Cons_fst) simp
  next
    case (Suc k)
    with Cons.prems have "k < length cs" by simp
    from Cons.IH [OF this, of "rofi_scorer_get_character_class U c"] Suc
    show ?thesis by (simp only: scorer_init_Cons_fst) (cases k; simp)
  qed
qed

lemma scorer_rows_spaces:
  "\<forall>c \<in> set pcs. g_unichar_isspace U c \<Longrightarrow>
   scorer_rows cfg U pcs pfirst pstart uleft ulefts scs score dp = dp"
  by (induction pcs arbitrary: pstart) simp_all

lemma scorer_final_min: "scorer_final MIN_SCORE (replicate n MIN_SCORE) = MIN_SCORE"
  by (induction n) (simp_all add: GAP_SCORE_def)














text \<open>
  Claim C4. A candidate of more than 256 code points gets the fixed worst score, the
  negation of \<^verbatim>\<open>MIN_SCORE\<close> (that is \<open>2 ^ 30\<close>), whatever the pattern and the candidate
  are: the guard is the first statement of the function, before any array is filled.
\<close>

theorem fuzzy_evaluate_over_max_length:
  assumes "slen > 256"
  shows "rofi_scorer_fuzzy_evaluate cfg U pattern plen str slen = - MIN_SCORE
         \<and> - MIN_SCORE = - (INT_MIN div 2) \<and> - MIN_SCORE = 1073741824"
  using assms
  by (simp add: rofi_scorer_fuzzy_evaluate_def FUZZY_SCORER_MAX_LENGTH_def MIN_SCORE_def
      INT_MIN_def)

theorem fuzzy_evaluate_over_max_length_witness:
  "rofi_scorer_fuzzy_evaluate \<lparr>matching_method = MM_FUZZY, tokenize_enabled = True,
       case_sensitive = False\<rparr> ascii_tables (utf8 ''abc'') 3 (replicate 257 97) 257
     = 1073741824
   \<and> g_utf8_strlen (replicate 257 (97::nat)) = 257"
  using fuzzy_evaluate_over_max_length [of 257 _ ascii_tables "utf8 ''abc''" 3 "replicate 257 97"]
  by (simp add: g_utf8_strlen_def)

text \<open>
  Claim C5, as amended. The base bonus \<^verbatim>\<open>score[j]\<close> that the scorer computes for position
  \<open>j\<close> of the candidate is the value of the transition from the class of the code point
  before it to the class of the code point at \<open>j\<close>, with \<open>NON_WORD\<close> standing for the
  class before position 0. The transition table is: from \<open>NON_WORD\<close> to any other class
  50 (\<^verbatim>\<open>WORD_START_SCORE\<close>); otherwise from \<open>LOWER\<close> to \<open>UPPER\<close>, or from a class other
  than \<open>DIGIT\<close> to \<open>DIGIT\<close>, 44 (\<^verbatim>\<open>CAMEL_SCORE\<close>, which is
  \<^verbatim>\<open>WORD_START_SCORE + GAP_SCORE - 1\<close> with \<^verbatim>\<open>GAP_SCORE\<close> being \<open>- 5\<close>); otherwise into
  \<open>NON_WORD\<close> 40 (\<^verbatim>\<open>NON_WORD_SCORE\<close>); every other transition 0.
\<close>

theorem scorer_base_bonus:
  assumes "j < slen"
  shows "fst (scorer_init U NON_WORD (utf8_chars str slen)) ! j =
           rofi_scorer_get_score_for
             (if j = 0 then NON_WORD
              else rofi_scorer_get_character_class U (g_utf8_get_char str (j - 1)))
             (rofi_scorer_get_character_class U (g_utf8_get_char str j))
         \<and> rofi_scorer_get_score_for NON_WORD LOWER = 50
         \<and> rofi_scorer_get_score_for NON_WORD UPPER = 50
         \<and> rofi_scorer_get_score_for NON_WORD DIGIT = 50
         \<and> rofi_scorer_get_score_for NON_WORD NON_WORD = 40
         \<and> rofi_scorer_get_score_for LOWER LOWER = 0
         \<and> rofi_scorer_get_score_for LOWER UPPER = 44
         \<and> rofi_scorer_get_score_for LOWER DIGIT = 44
         \<and> rofi_scorer_get_score_for LOWER NON_WORD = 40
         \<and> rofi_scorer_get_score_for UPPER LOWER = 0
         \<and> rofi_scorer_get_score_for UPPER UPPER = 0
         \<and> rofi_scorer_get_score_for UPPER DIGIT = 44
         \<and> rofi_scorer_get_score_for UPPER NON_WORD = 40
         \<and> rofi_scorer_get_score_for DIGIT LOWER = 0
         \<and> rofi_scorer_get_score_for DIGIT UPPER = 0
         \<and> rofi_scorer_get_score_for DIGIT DIGIT = 0
         \<and> rofi_scorer_get_score_for DIGIT NON_WORD = 40
         \<and> WORD_START_SCORE = 50 \<and> NON_WORD_SCORE = 40 \<and> GAP_SCORE = - 5
         \<and> CAMEL_SCORE = WORD_START_SCORE + GAP_SCORE - 1 \<and> CAMEL_SCORE = 44"
proof -
  have "j < length (utf8_chars str slen)"
    using assms by simp
  from scorer_init_score_nth [OF this, of U NON_WORD] assms
  have "fst (scorer_init U NON_WORD (utf8_chars str slen)) ! j =
           rofi_scorer_get_score_for
             (if j = 0 then NON_WORD
              else rofi_scorer_get_character_class U (g_utf8_get_char str (j - 1)))
             (rofi_scorer_get_character_class U (g_utf8_get_char str j))"
    by (simp add: utf8_chars_nth)
  then show ?thesis
    by (simp add: rofi_scorer_get_score_for_def score_consts)
qed

text \<open>The base bonuses of the candidate \<open>aB1 \<close>: word start, camel case, digit, non-word.\<close>

theorem scorer_base_bonus_witness:
  "map (\<lambda>j. fst (scorer_init ascii_tables NON_WORD (utf8_chars (utf8 ''aB1 '') 4)) ! j)
     [0, 1, 2, 3] = [50, 44, 44, 40]"
proof -
  have cl: "rofi_scorer_get_character_class ascii_tables 97 = LOWER"
    "rofi_scorer_get_character_class ascii_tables 66 = UPPER"
    "rofi_scorer_get_character_class ascii_tables 49 = DIGIT"
    "rofi_scorer_get_character_class ascii_tables 32 = NON_WORD"
    by (simp_all add: rofi_scorer_get_character_class_def g_unichar_islower_def
        g_unichar_isupper_def g_unichar_isdigit_def)
  have ch: "g_utf8_get_char (utf8 ''aB1 '') 0 = 97" "g_utf8_get_char (utf8 ''aB1 '') (Suc 0) = 66"
    "g_utf8_get_char (utf8 ''aB1 '') 2 = 49" "g_utf8_get_char (utf8 ''aB1 '') 3 = 32"
    by (simp_all add: g_utf8_get_char_def utf8_def)
  show ?thesis
    using scorer_base_bonus [of 0 4 ascii_tables "utf8 ''aB1 ''"]
      scorer_base_bonus [of 1 4 ascii_tables "utf8 ''aB1 ''"]
      scorer_base_bonus [of 2 4 ascii_tables "utf8 ''aB1 ''"]
      scorer_base_bonus [of 3 4 ascii_tables "utf8 ''aB1 ''"]
    by (simp add: cl ch)
qed

text \<open>The claim as stated gives 45 for the camel-case transition; the code gives 44.\<close>

theorem camel_score_counterexample:
  "rofi_scorer_get_score_for LOWER UPPER \<noteq> 45 \<and> CAMEL_SCORE \<noteq> 45"
  by (simp add: rofi_scorer_get_score_for_def score_consts)


text \<open>
  Claim C10. When every code point of the pattern is a space for \<^verbatim>\<open>g_unichar_isspace\<close>
  (the empty pattern included), the scorer returns the negation of \<^verbatim>\<open>MIN_SCORE\<close>, the
  value of the guard for candidates over 256 code points, for every candidate and every
  candidate length: no row is computed, and the last loop finds only \<^verbatim>\<open>MIN_SCORE\<close>.
\<close>

theorem fuzzy_evaluate_blank_pattern:
  assumes "\<forall>c \<in> set pattern. g_unichar_isspace U c"
  shows "rofi_scorer_fuzzy_evaluate cfg U pattern (g_utf8_strlen pattern) str slen = - MIN_SCORE"
proof -
  obtain score dp where sd: "scorer_init U NON_WORD (utf8_chars str slen) = (score, dp)"
    by (cases "scorer_init U NON_WORD (utf8_chars str slen)")
  have dp: "dp = replicate slen MIN_SCORE"
    using scorer_init_dp [of U NON_WORD "utf8_chars str slen"] sd by simp
  show ?thesis
    using assms
    by (simp add: rofi_scorer_fuzzy_evaluate_def g_utf8_strlen_def utf8_chars_full sd dp
        scorer_rows_spaces scorer_final_min)
qed

theorem fuzzy_evaluate_blank_pattern_witness:
  "rofi_scorer_fuzzy_evaluate \<lparr>matching_method = MM_FUZZY, tokenize_enabled = True,
       case_sensitive = False\<rparr> ascii_tables (utf8 '' '') 1 (utf8 ''abc'') 3 = 1073741824
   \<and> rofi_scorer_fuzzy_evaluate \<lparr>matching_method = MM_FUZZY, tokenize_enabled = True,
       case_sensitive = False\<rparr> ascii_tables [] 0 (utf8 ''abc'') 3 = 1073741824"
  using fuzzy_evaluate_blank_pattern [of "utf8 '' ''" ascii_tables _ "utf8 ''abc''" 3]
    fuzzy_evaluate_blank_pattern [of "[]" ascii_tables _ "utf8 ''abc''" 3]
  by (simp add: g_utf8_strlen_def utf8_def g_unichar_isspace_def MIN_SCORE_def INT_MIN_def)

section \<open>Properties of the edit distance\<close>

lemma lev_dist_le: "lev_dist a b i j \<le> max i j"
  by (induction a b i j rule: lev_dist.induct) auto

lemma lev_dist_sym: "lev_dist a b i j = lev_dist b a j i"
  apply (induction a b i j rule: lev_dist.induct)
    apply (case_tac j; simp)
   apply simp
  apply (simp add: min.commute min.left_commute eq_commute)
  done

lemma lev_dist_refl: "lev_dist a a i i = 0"
  by (induction i) simp_all

lemma MIN3_min: "MIN3 a b c = min (min a b) c"
  by (auto simp: MIN3_def)

lemma u32_id: "n < 4294967296 \<Longrightarrow> u32 n = n"
  by (simp add: u32_def)

lemma lev_dist_0_right: "lev_dist a b i 0 = i"
  by (cases i) simp_all

lemma map_u32_id: "\<forall>k \<in> set xs. k < 4294967296 \<Longrightarrow> map u32 xs = xs"
  by (rule map_idI) (simp add: u32_id)

lemma u32_MIN3:
  assumes "A + 1 < 4294967296" "B + 1 < 4294967296"
  shows "u32 (MIN3 (u32 (A + 1)) (u32 (B + 1)) C) = min (min (B + 1) (A + 1)) C"
proof -
  have "min (min (B + 1) (A + 1)) C < 4294967296"
    using assms by simp
  then show ?thesis
    by (simp only: u32_id [OF assms(1)] u32_id [OF assms(2)] MIN3_min u32_id min.commute)
qed

lemma levenshtein_column_inv:
  assumes a_def: "a = map (levenshtein_char cfg U) ns"
    and b_def: "b = map (levenshtein_char cfg U) hs"
    and bounds: "length ns < UINT_MAX" "Suc x' < UINT_MAX" "x' < length hs"
    and y: "y \<le> length ns"
  shows "levenshtein_column cfg U (levenshtein_char cfg U (hs ! x')) (drop y ns)
           (lev_dist a b y x') (lev_dist a b y (Suc x'))
           (map (\<lambda>k. lev_dist a b k x') [Suc y..<Suc (length ns)])
         = map (\<lambda>k. lev_dist a b k (Suc x')) [Suc y..<Suc (length ns)]"
  using y
proof (induction "length ns - y" arbitrary: y)
  case 0
  then show ?case by simp
next
  case (Suc d)
  then have y: "y < length ns" by simp
  have dr: "drop y ns = ns ! y # drop (Suc y) ns"
    using y by (simp add: Cons_nth_drop_Suc)
  have up: "[Suc y..<Suc (length ns)] = Suc y # [Suc (Suc y)..<Suc (length ns)]"
    using y by (simp add: upt_conv_Cons)
  have ay: "a ! y = levenshtein_char cfg U (ns ! y)"
    using y by (simp add: a_def)
  have bx: "b ! x' = levenshtein_char cfg U (hs ! x')"
    using bounds by (simp add: b_def)
  have b1: "lev_dist a b (Suc y) x' + 1 < 4294967296"
    using lev_dist_le [of a b "Suc y" x'] y bounds by (simp add: UINT_MAX_def)
  have b2: "lev_dist a b y (Suc x') + 1 < 4294967296"
    using lev_dist_le [of a b y "Suc x'"] y bounds by (simp add: UINT_MAX_def)
  have v: "u32 (MIN3 (u32 (lev_dist a b (Suc y) x' + 1)) (u32 (lev_dist a b y (Suc x') + 1))
             (lev_dist a b y x' + (if levenshtein_char cfg U (ns ! y) = levenshtein_char cfg U (hs ! x') then 0 else 1)))
           = lev_dist a b (Suc y) (Suc x')"
    unfolding u32_MIN3 [OF b1 b2] lev_dist.simps(3) ay bx ..
  have IH: "levenshtein_column cfg U (levenshtein_char cfg U (hs ! x')) (drop (Suc y) ns)
           (lev_dist a b (Suc y) x') (lev_dist a b (Suc y) (Suc x'))
           (map (\<lambda>k. lev_dist a b k x') [Suc (Suc y)..<Suc (length ns)])
         = map (\<lambda>k. lev_dist a b k (Suc x')) [Suc (Suc y)..<Suc (length ns)]"
    using Suc.hyps(1) [of "Suc y"] Suc.hyps(2) y by simp
  show ?case
    unfolding dr up list.map levenshtein_column.simps(1) Let_def v IH ..
qed

lemma levenshtein_rows_inv:
  assumes a_def: "a = map (levenshtein_char cfg U) ns"
    and b_def: "b = map (levenshtein_char cfg U) hs"
    and bounds: "length ns < UINT_MAX" "length hs < UINT_MAX"
    and x: "x' \<le> length hs"
  shows "levenshtein_rows cfg U ns (Suc x') (drop x' hs)
           (map (\<lambda>k. lev_dist a b k x') [0..<Suc (length ns)])
         = map (\<lambda>k. lev_dist a b k (length hs)) [0..<Suc (length ns)]"
  using x
proof (induction "length hs - x'" arbitrary: x')
  case 0
  then show ?case by simp
next
  case (Suc d)
  then have x: "x' < length hs" by simp
  have dr: "drop x' hs = hs ! x' # drop (Suc x') hs"
    using x by (simp add: Cons_nth_drop_Suc)
  have sx: "Suc x' < UINT_MAX"
    using x bounds by simp
  have c0: "levenshtein_column cfg U (levenshtein_char cfg U (hs ! x')) (drop 0 ns)
           (lev_dist a b 0 x') (lev_dist a b 0 (Suc x'))
           (map (\<lambda>k. lev_dist a b k x') [Suc 0..<Suc (length ns)])
         = map (\<lambda>k. lev_dist a b k (Suc x')) [Suc 0..<Suc (length ns)]"
    by (rule levenshtein_column_inv [OF a_def b_def bounds(1) sx x]) simp
  have c1: "tl (map (\<lambda>k. lev_dist a b k x') [0..<Suc (length ns)])
      = map (\<lambda>k. lev_dist a b k x') [Suc 0..<Suc (length ns)]"
    by (simp add: upt_conv_Cons del: upt_Suc)
  have c2: "u32 (Suc x') = Suc x'"
    using sx by (simp add: u32_id UINT_MAX_def)
  have col: "levenshtein_column cfg U (levenshtein_char cfg U (hs ! x')) ns
           (Suc x' - 1) (u32 (Suc x'))
           (tl (map (\<lambda>k. lev_dist a b k x') [0..<Suc (length ns)]))
         = map (\<lambda>k. lev_dist a b k (Suc x')) [Suc 0..<Suc (length ns)]"
    unfolding c1 c2 using c0 by (simp del: upt_Suc)
  have "u32 (Suc x') # levenshtein_column cfg U (levenshtein_char cfg U (hs ! x')) ns
           (Suc x' - 1) (u32 (Suc x'))
           (tl (map (\<lambda>k. lev_dist a b k x') [0..<Suc (length ns)]))
        = map (\<lambda>k. lev_dist a b k (Suc x')) [0..<Suc (length ns)]"
    unfolding col by (simp add: c2 upt_conv_Cons del: upt_Suc)
  moreover have "levenshtein_rows cfg U ns (Suc (Suc x')) (drop (Suc x') hs)
           (map (\<lambda>k. lev_dist a b k (Suc x')) [0..<Suc (length ns)])
         = map (\<lambda>k. lev_dist a b k (length hs)) [0..<Suc (length ns)]"
    using Suc.hyps(1) [of "Suc x'"] Suc.hyps(2) x by simp
  ultimately show ?case
    unfolding dr by (simp del: upt_Suc)
qed

lemma levenshtein_lev_dist:
  assumes "length a < UINT_MAX" "length b < UINT_MAX"
  shows "levenshtein cfg U a (g_utf8_strlen a) b (g_utf8_strlen b) =
         lev_dist (map (levenshtein_char cfg U) a) (map (levenshtein_char cfg U) b)
           (length a) (length b)"
proof -
  have init: "map u32 [0..<Suc (length a)] =
      map (\<lambda>k. lev_dist (map (levenshtein_char cfg U) a) (map (levenshtein_char cfg U) b) k 0)
        [0..<Suc (length a)]"
    using assms(1) by (simp add: lev_dist_0_right map_u32_id UINT_MAX_def del: upt_Suc)
  have "length a \<noteq> G_MAXLONG"
    using assms(1) by (simp add: UINT_MAX_def G_MAXLONG_def)
  then show ?thesis
    using levenshtein_rows_inv [OF refl refl assms, of 0 cfg U]
    by (simp add: levenshtein_def g_utf8_strlen_def utf8_chars_full init del: upt_Suc)
qed


lemma levenshtein_char_lower:
  "97 \<le> c \<Longrightarrow> c \<le> 122 \<Longrightarrow> levenshtein_char cfg U c = c"
  by (simp add: levenshtein_char_def g_unichar_tolower_def)

lemma levenshtein_column_step:
  "levenshtein_column cfg U haystackc (nc # needles) lastdiag left (c # column) =
     u32 (MIN3 (u32 (c + 1)) (u32 (left + 1))
            (lastdiag + (if levenshtein_char cfg U nc = haystackc then 0 else 1))) #
     levenshtein_column cfg U haystackc needles c
       (u32 (MIN3 (u32 (c + 1)) (u32 (left + 1))
              (lastdiag + (if levenshtein_char cfg U nc = haystackc then 0 else 1)))) column"
  by (simp add: Let_def)

lemma chars_kitten: "utf8_chars (utf8 ''kitten'') 6 = [107, 105, 116, 116, 101, 110]"
  by code_simp

lemma chars_sitting: "utf8_chars (utf8 ''sitting'') 7 = [115, 105, 116, 116, 105, 110, 103]"
  by code_simp

lemma upt_7: "[0..<6 + 1] = [0, 1, 2, 3, 4, 5, 6]"
  by code_simp

lemma levenshtein_kitten_sitting: "levenshtein cfg U (utf8 ''kitten'') 6 (utf8 ''sitting'') 7 = 3"
  unfolding levenshtein_def chars_kitten chars_sitting upt_7
  by (simp add: levenshtein_column_step levenshtein_char_lower u32_def MIN3_def G_MAXLONG_def
      del: levenshtein_column.simps(1))

text \<open>
  Claim C9. For texts of fewer than \<^verbatim>\<open>UINT_MAX\<close> code points (so that no \<^verbatim>\<open>unsigned int\<close>
  of the column wraps and the guard on \<^verbatim>\<open>G_MAXLONG\<close> does not fire), \<^verbatim>\<open>levenshtein\<close>
  called with the code point counts of its two arguments returns the Levenshtein distance
  of the two code point sequences, compared after lowering unless matching is case
  sensitive. Hence the distance of a text to itself is 0, the distance is symmetric, and
  the distance between \<open>kitten\<close> and \<open>sitting\<close> is 3.
\<close>

theorem levenshtein_edit_distance:
  assumes "length a < UINT_MAX" and "length b < UINT_MAX"
  shows "levenshtein cfg U a (g_utf8_strlen a) b (g_utf8_strlen b) =
           lev_dist (map (levenshtein_char cfg U) a) (map (levenshtein_char cfg U) b)
             (length a) (length b)
         \<and> levenshtein cfg U a (g_utf8_strlen a) a (g_utf8_strlen a) = 0
         \<and> levenshtein cfg U a (g_utf8_strlen a) b (g_utf8_strlen b) =
             levenshtein cfg U b (g_utf8_strlen b) a (g_utf8_strlen a)
         \<and> levenshtein cfg U (utf8 ''kitten'') (g_utf8_strlen (utf8 ''kitten''))
               (utf8 ''sitting'') (g_utf8_strlen (utf8 ''sitting'')) = 3"
proof -
  have len: "g_utf8_strlen (utf8 ''kitten'') = 6" "g_utf8_strlen (utf8 ''sitting'') = 7"
    by (simp_all add: g_utf8_strlen_def utf8_def)
  have "levenshtein cfg U a (g_utf8_strlen a) a (g_utf8_strlen a) = 0"
    by (simp add: levenshtein_lev_dist [OF assms(1) assms(1)] lev_dist_refl)
  moreover have "levenshtein cfg U a (g_utf8_strlen a) b (g_utf8_strlen b) =
             levenshtein cfg U b (g_utf8_strlen b) a (g_utf8_strlen a)"
    unfolding levenshtein_lev_dist [OF assms(1) assms(2)]
      levenshtein_lev_dist [OF assms(2) assms(1)]
    by (rule lev_dist_sym)
  ultimately show ?thesis
    unfolding len levenshtein_kitten_sitting
    using levenshtein_lev_dist [OF assms] by simp
qed

theorem levenshtein_edit_distance_witness:
  "levenshtein \<lparr>matching_method = MM_NORMAL, tokenize_enabled = True, case_sensitive = False\<rparr>
     ascii_tables (utf8 ''sitting'') 7 (utf8 ''kitten'') 6 = 3
   \<and> levenshtein \<lparr>matching_method = MM_NORMAL, tokenize_enabled = True, case_sensitive = False\<rparr>
     ascii_tables (utf8 ''kitten'') 6 (utf8 ''kitten'') 6 = 0"
proof -
  have len: "g_utf8_strlen (utf8 ''kitten'') = 6" "g_utf8_strlen (utf8 ''sitting'') = 7"
    by (simp_all add: g_utf8_strlen_def utf8_def)
  have b: "length (utf8 ''kitten'') < UINT_MAX" "length (utf8 ''sitting'') < UINT_MAX"
    by (simp_all add: utf8_def UINT_MAX_def)
  show ?thesis
    using levenshtein_edit_distance [OF b, of
        "\<lparr>matching_method = MM_NORMAL, tokenize_enabled = True, case_sensitive = False\<rparr>"
        ascii_tables]
    unfolding len by simp
qed

section \<open>Properties of the pattern compiler\<close>



























section \<open>Properties of the fuzzy accept filter\<close>






section \<open>Properties of the matcher\<close>















section \<open>Properties of the highlighter\<close>


















section \<open>The claims about the compiler, the matcher and the highlighter\<close>















end
